theory Spec2Isabelle
  imports Main "HOL-Library.Sublist"
begin

section \<open>Data model of the application shell (Layout.tsx)\<close>

text \<open>
  The menu tree delivered by the server (\<^verbatim>\<open>MenuType\<close> of \<^verbatim>\<open>api/permission\<close>), restricted to
  the fields that \<^verbatim>\<open>Layout.tsx\<close> reads. \<^verbatim>\<open>children\<close> and \<^verbatim>\<open>meta\<close> are optional in the
  source, so they are options here; \<^verbatim>\<open>component\<close> is only ever tested for truthiness
  (a non-empty string).
\<close>

record MenuMeta =
  meta_icon :: "string option"
  meta_closeTab :: bool
  meta_title :: "string option"

datatype MenuType = MenuType
  (menu_id: string)
  (menu_path: string)
  (menu_name: string)
  (menu_hidden: bool)
  (menu_component: string)
  (menu_children: "MenuType list option")
  (menu_meta: "MenuMeta option")

text \<open>
  State that \<^verbatim>\<open>isPathActive\<close> reads although it is not among its parameters:
  \<^verbatim>\<open>location.state?.from\<close>, \<^verbatim>\<open>document.referrer\<close> and \<^verbatim>\<open>sessionStorage\<close>.
\<close>

record Ambient =
  location_state_from :: "string option"
  document_referrer :: string
  sessionStorage :: "string \<rightharpoonup> string"

section \<open>String helpers of the JavaScript runtime\<close>

text \<open>
  \<^verbatim>\<open>s.startsWith(p)\<close> is \<^term>\<open>prefix p s\<close>, \<^verbatim>\<open>s.endsWith(p)\<close> is \<^term>\<open>suffix p s\<close>
  and \<^verbatim>\<open>s.includes(p)\<close> is \<^term>\<open>sublist p s\<close> (a contiguous occurrence).
\<close>

definition startsWith :: "string \<Rightarrow> string \<Rightarrow> bool" where
  "startsWith s p = prefix p s"

definition endsWith :: "string \<Rightarrow> string \<Rightarrow> bool" where
  "endsWith s p = suffix p s"

definition str_includes :: "string \<Rightarrow> string \<Rightarrow> bool" where
  "str_includes s p = sublist p s"

text \<open>\<^verbatim>\<open>s.split(c)\<close>: the pieces between the separators; the empty string gives one empty piece.\<close>

fun split :: "string \<Rightarrow> char \<Rightarrow> string list" where
  "split [] c = [[]]"
| "split (x # xs) c =
     (if x = c then [] # split xs c
      else (case split xs c of
              [] \<Rightarrow> [[x]]
            | p # ps \<Rightarrow> (x # p) # ps))"

text \<open>\<^verbatim>\<open>parts.join(sep)\<close>.\<close>

fun join :: "string list \<Rightarrow> string \<Rightarrow> string" where
  "join [] sep = []"
| "join [p] sep = p"
| "join (p # q # ps) sep = p @ sep @ join (q # ps) sep"

text \<open>\<^verbatim>\<open>path.split('/').filter(Boolean)\<close>: the non-empty path segments.\<close>

definition pathParts :: "string \<Rightarrow> string list" where
  "pathParts p = filter (\<lambda>s. s \<noteq> []) (split p CHR ''/'')"

text \<open>A string in a condition is truthy when it is present and non-empty.\<close>

fun truthy :: "string option \<Rightarrow> bool" where
  "truthy None = False"
| "truthy (Some s) = (s \<noteq> [])"

section \<open>PathMatcher: \<^verbatim>\<open>isPathActive\<close>\<close>

text \<open>The branch for \<^verbatim>\<open>/ticket/:id\<close>, lines 254 to 284: it reads the ambient state.\<close>

definition ticketBranch :: "Ambient \<Rightarrow> string \<Rightarrow> bool" where
  "ticketBranch env menuPath =
     (if truthy (location_state_from env) then Some menuPath = location_state_from env
      else if document_referrer env \<noteq> [] \<and>
              (str_includes (document_referrer env) ''/daily-workorders'' \<or>
               str_includes (document_referrer env) ''/fill-ticket-form'')
           then menuPath = ''/daily-workorders''
      else if document_referrer env \<noteq> [] \<and> str_includes (document_referrer env) ''/my-tickets''
           then menuPath = ''/my-tickets''
      else if document_referrer env \<noteq> [] \<and> str_includes (document_referrer env) ''/all-tickets''
           then menuPath = ''/all-tickets''
      else if truthy (sessionStorage env ''ticket_detail_from'')
           then Some menuPath = sessionStorage env ''ticket_detail_from''
      else menuPath = ''/my-tickets'')"

definition isPathActive :: "Ambient \<Rightarrow> string \<Rightarrow> string \<Rightarrow> bool" where
  "isPathActive env menuPath currentPath =
     (if menuPath = currentPath then True
      else if menuPath = ''/daily-workorders'' \<and> startsWith currentPath ''/fill-ticket-form''
        then True
      else if menuPath = ''/services'' \<and> startsWith currentPath ''/services/'' \<and>
              currentPath \<noteq> ''/services'' \<and>
              length (pathParts currentPath) = 2 \<and> pathParts currentPath ! 0 = ''services''
        then True
      else if menuPath = ''/clusters'' \<and> startsWith currentPath ''/clusters/'' \<and>
              endsWith currentPath ''/status''
        then True
      else if menuPath = ''/cluster-permissions'' \<and> startsWith currentPath ''/clusters/'' \<and>
              endsWith currentPath ''/permissions''
        then True
      else if menuPath = ''/k8s/deployments'' \<and> startsWith currentPath ''/k8s/deployments/'' \<and>
              currentPath \<noteq> ''/k8s/deployments'' \<and>
              length (pathParts currentPath) \<ge> 5 \<and>
              pathParts currentPath ! 0 = ''k8s'' \<and> pathParts currentPath ! 1 = ''deployments''
        then True
      else if startsWith menuPath ''/k8s/'' \<and> startsWith currentPath (menuPath @ ''/'') \<and>
              currentPath \<noteq> menuPath \<and>
              length (pathParts currentPath) > length (pathParts menuPath) \<and>
              join (take (length (pathParts menuPath)) (pathParts currentPath)) ''/'' =
                join (pathParts menuPath) ''/''
        then True
      else if startsWith currentPath ''/ticket/'' then ticketBranch env menuPath
      else False)"

section \<open>MenuTree: titles, lookup and the grouped sidebar model\<close>

text \<open>
  \<^verbatim>\<open>getMenuTitle\<close>, lines 400 to 418. The parameter \<open>t\<close> is the translation function
  called as \<^verbatim>\<open>t(key, { defaultValue: '' })\<close>: it returns the translation of the key, or
  the empty string when there is none.
\<close>

definition getMenuTitle :: "(string \<Rightarrow> string) \<Rightarrow> MenuType \<Rightarrow> string" where
  "getMenuTitle t menu =
     (let groupKey = ''menu.groups.'' @ menu_name menu;
          groupTranslation = t groupKey
      in if groupTranslation \<noteq> [] \<and> groupTranslation \<noteq> groupKey then groupTranslation
         else let menuKey = ''menu.'' @ menu_name menu;
                  menuTranslation = t menuKey
              in if menuTranslation \<noteq> [] \<and> menuTranslation \<noteq> menuKey then menuTranslation
                 else menu_name menu)"

text \<open>\<^verbatim>\<open>findMenuByPath\<close>, lines 188 to 199: depth first, hidden nodes included.\<close>

fun findMenuByPath :: "string \<Rightarrow> MenuType list \<Rightarrow> MenuType option" where
  "findMenuByPath path [] = None"
| "findMenuByPath path (MenuType i p n h c ch mt # menuList) =
     (if p = path then Some (MenuType i p n h c ch mt)
      else (case ch of
              None \<Rightarrow> findMenuByPath path menuList
            | Some cs \<Rightarrow>
                if cs \<noteq> [] then
                  (case findMenuByPath path cs of
                     Some found \<Rightarrow> Some found
                   | None \<Rightarrow> findMenuByPath path menuList)
                else findMenuByPath path menuList))"

datatype 'icon MenuItem = MenuItem
  (item_id: string)
  (item_icon: 'icon)
  (item_path: string)
  (item_title: string)
  (item_children: "'icon MenuItem list option")

record 'icon MenuGroup =
  group_id :: string
  group_title :: string
  group_icon :: 'icon
  group_items :: "'icon MenuItem list"

text \<open>\<^verbatim>\<open>menu.meta?.icon\<close>.\<close>

definition metaIcon :: "MenuType \<Rightarrow> string option" where
  "metaIcon menu = (case menu_meta menu of None \<Rightarrow> None | Some mt \<Rightarrow> meta_icon mt)"

text \<open>
  \<^verbatim>\<open>convertMenuToMenuItem\<close>, lines 462 to 482. \<open>getIconByName\<close> is the icon lookup of
  \<^verbatim>\<open>utils/menuIcons\<close>, a parameter here.
\<close>

fun convertMenuToMenuItem ::
  "(string \<Rightarrow> string) \<Rightarrow> (string option \<Rightarrow> 'icon) \<Rightarrow> MenuType \<Rightarrow> 'icon MenuItem" where
  "convertMenuToMenuItem t getIconByName (MenuType i p n h c ch mt) =
     MenuItem i (getIconByName (metaIcon (MenuType i p n h c ch mt))) p
       (getMenuTitle t (MenuType i p n h c ch mt))
       (case ch of
          None \<Rightarrow> None
        | Some cs \<Rightarrow>
            if cs \<noteq> [] then Some (map (convertMenuToMenuItem t getIconByName) cs)
            else Some [])"

text \<open>\<^verbatim>\<open>menu.children && menu.children.length > 0\<close>.\<close>

definition hasChildren :: "MenuType \<Rightarrow> bool" where
  "hasChildren menu = (case menu_children menu of None \<Rightarrow> False | Some cs \<Rightarrow> cs \<noteq> [])"

text \<open>The body of the \<^verbatim>\<open>map\<close> callback of \<^verbatim>\<open>convertMenusToGroups\<close>, lines 490 to 509.\<close>

definition menuToGroup ::
  "(string \<Rightarrow> string) \<Rightarrow> (string option \<Rightarrow> 'icon) \<Rightarrow> MenuType \<Rightarrow> 'icon MenuGroup" where
  "menuToGroup t getIconByName menu =
     \<lparr>group_id = menu_id menu,
      group_title = getMenuTitle t menu,
      group_icon = getIconByName (metaIcon menu),
      group_items =
        (case menu_children menu of
           None \<Rightarrow> [convertMenuToMenuItem t getIconByName menu]
         | Some cs \<Rightarrow>
             if cs \<noteq> []
             then map (convertMenuToMenuItem t getIconByName)
                    (filter (\<lambda>child. \<not> menu_hidden child) cs)
             else [convertMenuToMenuItem t getIconByName menu])\<rparr>"

text \<open>\<^verbatim>\<open>convertMenusToGroups\<close>, lines 487 to 511.\<close>

definition convertMenusToGroups ::
  "(string \<Rightarrow> string) \<Rightarrow> (string option \<Rightarrow> 'icon) \<Rightarrow> MenuType list \<Rightarrow> 'icon MenuGroup list" where
  "convertMenusToGroups t getIconByName menus =
     filter (\<lambda>grp. length (group_items grp) > 0)
       (map (menuToGroup t getIconByName)
          (filter (\<lambda>menu. \<not> menu_hidden menu) menus))"

section \<open>MenuCache: \<^verbatim>\<open>fetchMenus\<close>\<close>

text \<open>
  What \<^verbatim>\<open>fetchMenus\<close> takes from its surroundings: the JSON codec for menu lists
  (\<open>None\<close> when \<^verbatim>\<open>JSON.parse\<close> throws), \<^verbatim>\<open>parseInt(s, 10)\<close> (\<open>None\<close> for \<^verbatim>\<open>NaN\<close>),
  the clock at the freshness check and at the cache write, whether \<^verbatim>\<open>sessionStorage\<close>
  throws, and the outcome of the one remote call \<^verbatim>\<open>getUserMenus()\<close>.
\<close>

datatype RemoteResult = Rejected | Resolved "MenuType list option"

datatype error = StorageError | SyntaxError | FetchError

record Runtime =
  JSON_parse :: "string \<Rightarrow> MenuType list option"
  JSON_stringify :: "MenuType list \<Rightarrow> string"
  parseInt :: "string \<Rightarrow> int option"
  Date_now :: int
  Date_now_stored :: string
  getItemThrows :: bool
  setItemThrows :: "string \<Rightarrow> bool"
  getUserMenus :: RemoteResult

text \<open>
  The component state that \<^verbatim>\<open>fetchMenus\<close> writes, the session store, and a counter of
  the calls of \<^verbatim>\<open>getUserMenus\<close>.
\<close>

record FetchState =
  st_menus :: "MenuType list"
  st_openGroups :: "string \<rightharpoonup> bool"
  st_loading :: bool
  st_storage :: "string \<rightharpoonup> string"
  remoteCalls :: nat

definition cacheKey :: string where
  "cacheKey = ''user_menus_cache''"

definition cacheTimestampKey :: string where
  "cacheTimestampKey = ''user_menus_cache_timestamp''"

definition cacheExpiry :: int where
  "cacheExpiry = 10 * 60 * 1000"

definition getItem :: "Runtime \<Rightarrow> FetchState \<Rightarrow> string \<Rightarrow> error + string option" where
  "getItem rt st key = (if getItemThrows rt then Inl StorageError else Inr (st_storage st key))"

definition parseMenus :: "Runtime \<Rightarrow> string \<Rightarrow> error + MenuType list" where
  "parseMenus rt s = (case JSON_parse rt s of None \<Rightarrow> Inl SyntaxError | Some menus \<Rightarrow> Inr menus)"

text \<open>The loop that builds \<^verbatim>\<open>initialOpenState\<close>: every top-level id is sent to false.\<close>

definition initialOpenState :: "MenuType list \<Rightarrow> (string \<rightharpoonup> bool)" where
  "initialOpenState menus = fold (\<lambda>menu acc. acc(menu_id menu \<mapsto> False)) menus Map.empty"

text \<open>
  The body of the first \<^verbatim>\<open>try\<close>, lines 93 to 114: \<open>Inr (Some menus)\<close> when the cache is
  used, \<open>Inr None\<close> when it is not, \<open>Inl\<close> when something in the block throws.
\<close>

definition readFreshCache :: "Runtime \<Rightarrow> FetchState \<Rightarrow> error + MenuType list option" where
  "readFreshCache rt st =
     (case getItem rt st cacheKey of
        Inl e \<Rightarrow> Inl e
      | Inr cachedMenus \<Rightarrow>
          (case getItem rt st cacheTimestampKey of
             Inl e \<Rightarrow> Inl e
           | Inr cachedTimestamp \<Rightarrow>
               if truthy cachedMenus \<and> truthy cachedTimestamp then
                 (case parseInt rt (the cachedTimestamp) of
                    None \<Rightarrow> Inr None
                  | Some timestamp \<Rightarrow>
                      if Date_now rt - timestamp < cacheExpiry then
                        (case parseMenus rt (the cachedMenus) of
                           Inl e \<Rightarrow> Inl e
                         | Inr menus \<Rightarrow> Inr (Some menus))
                      else Inr None)
               else Inr None))"

text \<open>The block after the successful \<^verbatim>\<open>await\<close>, lines 124 to 139.\<close>

definition storeMenus :: "Runtime \<Rightarrow> MenuType list \<Rightarrow> (string \<rightharpoonup> string) \<Rightarrow> (string \<rightharpoonup> string)" where
  "storeMenus rt data sto =
     (if setItemThrows rt cacheKey then sto
      else if setItemThrows rt cacheTimestampKey then sto(cacheKey \<mapsto> JSON_stringify rt data)
      else sto(cacheKey \<mapsto> JSON_stringify rt data, cacheTimestampKey \<mapsto> Date_now_stored rt))"

text \<open>The \<^verbatim>\<open>catch\<close> block of the remote call, lines 140 to 159.\<close>

definition staleFallback :: "Runtime \<Rightarrow> FetchState \<Rightarrow> FetchState" where
  "staleFallback rt st =
     (case getItem rt st cacheKey of
        Inl e \<Rightarrow> st\<lparr>st_menus := []\<rparr>
      | Inr cachedMenus \<Rightarrow>
          if truthy cachedMenus then
            (case parseMenus rt (the cachedMenus) of
               Inl e \<Rightarrow> st\<lparr>st_menus := []\<rparr>
             | Inr menus \<Rightarrow> st\<lparr>st_menus := menus, st_openGroups := initialOpenState menus\<rparr>)
          else st\<lparr>st_menus := []\<rparr>)"

text \<open>The second \<^verbatim>\<open>try\<close> with its \<^verbatim>\<open>catch\<close> and \<^verbatim>\<open>finally\<close>, lines 121 to 162.\<close>

definition remoteFetch :: "Runtime \<Rightarrow> FetchState \<Rightarrow> error + FetchState" where
  "remoteFetch rt st =
     (let st1 = st\<lparr>st_loading := True, remoteCalls := remoteCalls st + 1\<rparr>;
          st2 = (case getUserMenus rt of
                   Rejected \<Rightarrow> staleFallback rt st1
                 | Resolved None \<Rightarrow> st1
                 | Resolved (Some data) \<Rightarrow>
                     st1\<lparr>st_menus := data,
                         st_storage := storeMenus rt data (st_storage st1),
                         st_openGroups := initialOpenState data\<rparr>)
      in Inr (st2\<lparr>st_loading := False\<rparr>))"

text \<open>\<^verbatim>\<open>fetchMenus\<close>, lines 86 to 163. \<open>Inl\<close> would be a rejected promise.\<close>

definition fetchMenus :: "Runtime \<Rightarrow> bool \<Rightarrow> FetchState \<Rightarrow> error + FetchState" where
  "fetchMenus rt forceRefresh st =
     (if \<not> forceRefresh then
        (case readFreshCache rt st of
           Inr (Some menus) \<Rightarrow>
             Inr (st\<lparr>st_menus := menus, st_openGroups := initialOpenState menus,
                     st_loading := False\<rparr>)
         | Inr None \<Rightarrow> remoteFetch rt st
         | Inl e \<Rightarrow> remoteFetch rt st)
      else remoteFetch rt st)"

section \<open>GroupExpansionTracker: the route-change expansion effect\<close>

text \<open>The callback of \<^verbatim>\<open>group.items.some\<close>, lines 668 to 676.\<close>

definition hasActiveItem :: "Ambient \<Rightarrow> string \<Rightarrow> 'icon MenuGroup \<Rightarrow> bool" where
  "hasActiveItem env pathname grp =
     list_ex (\<lambda>item.
        if isPathActive env (item_path item) pathname then True
        else (case item_children item of
                Some cs \<Rightarrow> list_ex (\<lambda>child. isPathActive env (item_path child) pathname) cs
              | None \<Rightarrow> False))
       (group_items grp)"

text \<open>The callback of \<^verbatim>\<open>item.children.some\<close>, lines 697 to 707.\<close>

definition hasActiveGrandchild :: "Ambient \<Rightarrow> string \<Rightarrow> 'icon MenuItem list \<Rightarrow> bool" where
  "hasActiveGrandchild env pathname children =
     list_ex (\<lambda>child.
        if isPathActive env (item_path child) pathname then True
        else (case item_children child of
                Some gs \<Rightarrow> list_ex (\<lambda>grandchild. isPathActive env (item_path grandchild) pathname) gs
              | None \<Rightarrow> False))
       children"

text \<open>The updater passed to \<^verbatim>\<open>setOpenGroups\<close>, lines 678 to 688 and 711 to 721.\<close>

definition expandKey :: "string \<Rightarrow> (string \<rightharpoonup> bool) \<Rightarrow> (string \<rightharpoonup> bool)" where
  "expandKey key prev = (if prev key = Some True then prev else prev(key \<mapsto> True))"

definition subKey :: "'icon MenuGroup \<Rightarrow> 'icon MenuItem \<Rightarrow> string" where
  "subKey grp item = group_id grp @ ''-'' @ item_id item"

definition expandGroupsStep ::
  "Ambient \<Rightarrow> string \<Rightarrow> 'icon MenuGroup \<Rightarrow> (string \<rightharpoonup> bool) \<Rightarrow> (string \<rightharpoonup> bool)" where
  "expandGroupsStep env pathname grp og =
     (if hasActiveItem env pathname grp then expandKey (group_id grp) og else og)"

definition expandSubStep ::
  "Ambient \<Rightarrow> string \<Rightarrow> 'icon MenuGroup \<Rightarrow> 'icon MenuItem \<Rightarrow> (string \<rightharpoonup> bool) \<Rightarrow> (string \<rightharpoonup> bool)" where
  "expandSubStep env pathname grp item og =
     (case item_children item of
        None \<Rightarrow> og
      | Some cs \<Rightarrow>
          if cs \<noteq> [] \<and> hasActiveGrandchild env pathname cs
          then expandKey (subKey grp item) og
          else og)"

text \<open>The effect of lines 665 to 727: the two \<^verbatim>\<open>forEach\<close> loops, one after the other.\<close>

definition expansionEffect ::
  "Ambient \<Rightarrow> string \<Rightarrow> 'icon MenuGroup list \<Rightarrow> (string \<rightharpoonup> bool) \<Rightarrow> (string \<rightharpoonup> bool)" where
  "expansionEffect env pathname menuGroups og =
     fold (\<lambda>grp. fold (expandSubStep env pathname grp) (group_items grp)) menuGroups
       (fold (expandGroupsStep env pathname) menuGroups og)"

text \<open>
  The two nested conditions of lines 696 and 709: the item has children and one of them,
  or one of their children, is active.
\<close>

definition subGroupActive :: "Ambient \<Rightarrow> string \<Rightarrow> 'icon MenuItem \<Rightarrow> bool" where
  "subGroupActive env pathname item =
     (case item_children item of
        None \<Rightarrow> False
      | Some cs \<Rightarrow> cs \<noteq> [] \<and> hasActiveGrandchild env pathname cs)"

section \<open>TabSynchronizer\<close>

subsection \<open>The tab collection of \<^verbatim>\<open>TabsContext\<close>\<close>

record Tab =
  tab_id :: string
  tab_path :: string
  tab_title :: string
  tab_closable :: bool

text \<open>
  The tab collection and the pending-removal marker of \<^verbatim>\<open>TabsContext\<close>, and the
  \<^verbatim>\<open>prevPathRef\<close> of \<^verbatim>\<open>Layout\<close>.
\<close>

record TabsState =
  tabs :: "Tab list"
  pendingRemovedTabId :: "string option"
  prevPathRef :: string

text \<open>The tab id of a path, \<^verbatim>\<open>path || 'home'\<close> (lines 588 and 613).\<close>

definition tabIdOf :: "string \<Rightarrow> string" where
  "tabIdOf path = (if path \<noteq> [] then path else ''home'')"





text \<open>
  Modelled from the spec: the title \<^verbatim>\<open>addTab\<close> of \<^verbatim>\<open>TabsContext\<close> gives a tab, which
  is not part of the sources: \<^verbatim>\<open>menu.meta.title\<close>, the override that \<^verbatim>\<open>Layout\<close> sets
  before it calls \<^verbatim>\<open>addTab\<close>, and the name of the menu when there is none.
\<close>

definition menuMetaTitle :: "MenuType \<Rightarrow> string" where
  "menuMetaTitle menu =
     (case menu_meta menu of
        None \<Rightarrow> menu_name menu
      | Some mt \<Rightarrow> (case meta_title mt of None \<Rightarrow> menu_name menu | Some ttl \<Rightarrow> ttl))"


subsection \<open>The reconciliation effect on a loaded menu tree, lines 290 to 395\<close>

text \<open>\<^verbatim>\<open>{ ...menu, meta: { ...menu.meta, title: correctTitle } }\<close>.\<close>

fun menuWithCorrectTitle :: "MenuType \<Rightarrow> string \<Rightarrow> MenuType" where
  "menuWithCorrectTitle (MenuType i p n h c ch mt) correctTitle =
     MenuType i p n h c ch
       (Some (case mt of
                None \<Rightarrow> \<lparr>meta_icon = None, meta_closeTab = False, meta_title = Some correctTitle\<rparr>
              | Some m \<Rightarrow> m\<lparr>meta_title := Some correctTitle\<rparr>))"






subsection \<open>The route-change effect, lines 556 to 655\<close>









subsection \<open>Sequences of triggers\<close>




subsection \<open>Invariants of the tab collection, used in the proofs\<close>

text \<open>The tabs of one path, in their order.\<close>

definition ofPath :: "string \<Rightarrow> Tab list \<Rightarrow> Tab list" where
  "ofPath p ts = filter (\<lambda>tab. tab_path tab = p) ts"

text \<open>The value of \<open>closable\<close> that the menu of a path gives a tab of that path.\<close>

definition closableAt :: "(MenuType \<Rightarrow> bool) \<Rightarrow> MenuType list \<Rightarrow> string \<Rightarrow> bool" where
  "closableAt c menus p = (case findMenuByPath p menus of None \<Rightarrow> False | Some menu \<Rightarrow> c menu)"


text \<open>A tab that survives eviction and pruning: its path is not the retired one and resolves.\<close>

definition goodTab :: "MenuType list \<Rightarrow> Tab \<Rightarrow> bool" where
  "goodTab menus tab = (tab_path tab \<noteq> ''/dashboard'' \<and> findMenuByPath (tab_path tab) menus \<noteq> None)"

text \<open>
  The data-model invariant of a tab, relative to the set \<open>P\<close> of the paths in play: the
  path is one of them and the id is the id of the path.
\<close>

definition keyedTab :: "string set \<Rightarrow> Tab \<Rightarrow> bool" where
  "keyedTab P tab = (tab_path tab \<in> P \<and> tab_id tab = tabIdOf (tab_path tab))"

text \<open>A tab as reconciliation leaves it: keyed, resolved, and \<open>closable\<close> as its menu says.\<close>

definition okTab :: "string set \<Rightarrow> (MenuType \<Rightarrow> bool) \<Rightarrow> MenuType list \<Rightarrow> Tab \<Rightarrow> bool" where
  "okTab P c menus tab =
     (keyedTab P tab \<and> goodTab menus tab \<and>
      tab_closable tab = closableAt c menus (tab_path tab))"


text \<open>The update that \<^verbatim>\<open>updateTabsClosable\<close> applies to one tab.\<close>

definition setClosable :: "(MenuType \<Rightarrow> bool) \<Rightarrow> MenuType list \<Rightarrow> Tab \<Rightarrow> Tab" where
  "setClosable c menus tab =
     (case findMenuByPath (tab_path tab) menus of
        None \<Rightarrow> tab
      | Some menu \<Rightarrow> tab\<lparr>tab_closable := c menu\<rparr>)"





section \<open>Concrete inputs\<close>

text \<open>An ambient state with no navigation hint, no referrer and an empty session store.\<close>

definition noHints :: Ambient where
  "noHints = \<lparr>location_state_from = None, document_referrer = [], sessionStorage = Map.empty\<rparr>"

text \<open>The same, but the page was reached from the list of all tickets.\<close>

definition fromAllTickets :: Ambient where
  "fromAllTickets =
     \<lparr>location_state_from = None,
      document_referrer = ''https://keyops.example/all-tickets'',
      sessionStorage = Map.empty\<rparr>"

text \<open>Two ambient states that differ only in a session key \<^verbatim>\<open>isPathActive\<close> does not read.\<close>

definition storedHintA :: Ambient where
  "storedHintA =
     \<lparr>location_state_from = None, document_referrer = [],
      sessionStorage = [''ticket_detail_from'' \<mapsto> ''/all-tickets'', ''user_menus_cache'' \<mapsto> ''[]'']\<rparr>"

definition storedHintB :: Ambient where
  "storedHintB =
     \<lparr>location_state_from = None, document_referrer = [],
      sessionStorage = [''ticket_detail_from'' \<mapsto> ''/all-tickets'']\<rparr>"

text \<open>
  A menu tree: a visible leaf, a hidden leaf, a group with a visible and a hidden child,
  and a group whose only child is hidden.
\<close>

definition homeMenu :: MenuType where
  "homeMenu = MenuType ''m-home'' ''/home'' ''home'' False ''Home'' None None"

definition sampleMenus :: "MenuType list" where
  "sampleMenus =
     [homeMenu,
      MenuType ''m-secret'' ''/secret'' ''secret'' True ''Secret'' None None,
      MenuType ''m-assets'' [] ''assets'' False []
        (Some [MenuType ''m-hosts'' ''/hosts'' ''hosts'' False ''Hosts'' None None,
               MenuType ''m-keys'' ''/keys'' ''keys'' True ''Keys'' None None]) None,
      MenuType ''m-empty'' [] ''empty'' False []
        (Some [MenuType ''m-ghost'' ''/ghost'' ''ghost'' True ''Ghost'' None None]) None]"

text \<open>A translation function without entries, and an icon lookup that returns the name.\<close>

definition noTranslation :: "string \<Rightarrow> string" where
  "noTranslation key = []"

definition iconName :: "string option \<Rightarrow> string" where
  "iconName name = (case name of None \<Rightarrow> ''default'' | Some n \<Rightarrow> n)"

text \<open>
  A runtime whose remote call fails, at clock 2000, and one ten minutes later; the codec
  knows one document, the list with \<open>homeMenu\<close>.
\<close>

definition failingRuntime :: Runtime where
  "failingRuntime =
     \<lparr>JSON_parse = (\<lambda>s. if s = ''[home]'' then Some [homeMenu] else None),
      JSON_stringify = (\<lambda>menus. ''[home]''),
      parseInt = (\<lambda>s. if s = ''1000'' then Some 1000 else None),
      Date_now = 2000,
      Date_now_stored = ''2000'',
      getItemThrows = False,
      setItemThrows = (\<lambda>key. False),
      getUserMenus = Rejected\<rparr>"

definition lateRuntime :: Runtime where
  "lateRuntime = failingRuntime\<lparr>Date_now := 601000\<rparr>"

definition answeringRuntime :: Runtime where
  "answeringRuntime = failingRuntime\<lparr>getUserMenus := Resolved (Some sampleMenus)\<rparr>"

text \<open>A state with a snapshot cached at clock 1000 and one group open, and a state without cache.\<close>

definition cachedState :: FetchState where
  "cachedState =
     \<lparr>st_menus = [], st_openGroups = [''m-home'' \<mapsto> True, ''m-old'' \<mapsto> True], st_loading = True,
      st_storage = [cacheKey \<mapsto> ''[home]'', cacheTimestampKey \<mapsto> ''1000''],
      remoteCalls = 0\<rparr>"


text \<open>A sidebar with the two ticket lists in one group, and an expansion state.\<close>

definition ticketGroups :: "string MenuGroup list" where
  "ticketGroups =
     [\<lparr>group_id = ''m-tickets'', group_title = ''tickets'', group_icon = ''default'',
       group_items =
         [MenuItem ''m-my'' ''default'' ''/my-tickets'' ''my'' None,
          MenuItem ''m-all'' ''default'' ''/all-tickets'' ''all'' None]\<rparr>,
      \<lparr>group_id = ''m-other'', group_title = ''other'', group_icon = ''default'',
       group_items = [MenuItem ''m-hosts'' ''default'' ''/hosts'' ''hosts'' None]\<rparr>]"

definition ticketOpen :: "string \<rightharpoonup> bool" where
  "ticketOpen = [''m-tickets'' \<mapsto> False, ''m-other'' \<mapsto> True]"












text \<open>The verified properties follow.\<close>

section \<open>PathMatcher\<close>

lemma k8s_not_ticket: "prefix ''/k8s/'' m \<Longrightarrow> \<not> prefix (m @ ''/'') ''/ticket/55''"
  by (auto simp: prefix_def)

text \<open>
  C8, as the code has it. For the route \<^verbatim>\<open>/ticket/55\<close> with no navigation hint, no
  referrer and no stored hint, \<^verbatim>\<open>isPathActive\<close> holds of exactly two menu paths:
  \<^verbatim>\<open>/my-tickets\<close>, the default origin, and \<^verbatim>\<open>/ticket/55\<close> itself, by the rule of exact
  equality that comes first. It is false of every other menu path, \<^verbatim>\<open>/all-tickets\<close>
  among them.
\<close>

theorem ticket_default_active:
  "isPathActive noHints menuPath ''/ticket/55'' \<longleftrightarrow>
     menuPath = ''/my-tickets'' \<or> menuPath = ''/ticket/55''"
  unfolding isPathActive_def startsWith_def endsWith_def ticketBranch_def noHints_def
  using k8s_not_ticket[of menuPath]
  by (auto simp: suffix_to_prefix)

theorem ticket_default_active_witness:
  "isPathActive noHints ''/my-tickets'' ''/ticket/55'' \<and>
   \<not> isPathActive noHints ''/all-tickets'' ''/ticket/55''"
  using ticket_default_active[of "''/my-tickets''"] ticket_default_active[of "''/all-tickets''"]
  by simp

text \<open>
  C8 as stated fails: the menu path \<^verbatim>\<open>/ticket/55\<close> is not \<^verbatim>\<open>/my-tickets\<close> and is active.
\<close>

theorem ticket_exactly_one_counterexample:
  "isPathActive noHints ''/ticket/55'' ''/ticket/55'' \<and> ''/ticket/55'' \<noteq> ''/my-tickets''"
  by (simp add: isPathActive_def)

text \<open>
  C7, as the code has it. The alias rule of \<^verbatim>\<open>/daily-workorders\<close> is a prefix rule: the
  menu path is active for every current path that begins with \<^verbatim>\<open>/fill-ticket-form\<close>.
  Besides that, only exact equality and the ticket-detail rule make it active.
\<close>

theorem daily_workorders_alias_prefix:
  "isPathActive env ''/daily-workorders'' currentPath \<longleftrightarrow>
     currentPath = ''/daily-workorders'' \<or> startsWith currentPath ''/fill-ticket-form'' \<or>
     (startsWith currentPath ''/ticket/'' \<and> ticketBranch env ''/daily-workorders'')"
  unfolding isPathActive_def
  by (auto simp: startsWith_def)

theorem daily_workorders_alias_prefix_witness:
  "isPathActive noHints ''/daily-workorders'' ''/fill-ticket-form-old'' \<and>
   \<not> isPathActive noHints ''/daily-workorders'' ''/fill-ticket''"
  using daily_workorders_alias_prefix[of noHints "''/fill-ticket-form-old''"]
    daily_workorders_alias_prefix[of noHints "''/fill-ticket''"]
  by (simp add: startsWith_def)

text \<open>
  C7 as stated fails: \<^verbatim>\<open>/fill-ticket-form/7\<close> is not the aliased path and still makes
  \<^verbatim>\<open>/daily-workorders\<close> active.
\<close>

theorem alias_literal_counterexample:
  "isPathActive noHints ''/daily-workorders'' ''/fill-ticket-form/7'' \<and>
   ''/fill-ticket-form/7'' \<noteq> ''/fill-ticket-form''"
  by (simp add: isPathActive_def startsWith_def)

text \<open>
  C2, as the code has it. The result of \<^verbatim>\<open>isPathActive(menuPath, currentPath)\<close> is fixed
  by its two arguments together with three values of the ambient state, read only when
  the current path begins with \<^verbatim>\<open>/ticket/\<close>: \<^verbatim>\<open>location.state.from\<close>,
  \<^verbatim>\<open>document.referrer\<close> and the session entry \<^verbatim>\<open>ticket_detail_from\<close>. Two ambient
  states that agree on these three give the same result; for a current path outside
  \<^verbatim>\<open>/ticket/\<close> every two ambient states do.
\<close>

theorem isPathActive_depends_on_context_only:
  assumes "\<not> startsWith currentPath ''/ticket/'' \<or>
     (location_state_from e1 = location_state_from e2 \<and>
      document_referrer e1 = document_referrer e2 \<and>
      sessionStorage e1 ''ticket_detail_from'' = sessionStorage e2 ''ticket_detail_from'')"
  shows "isPathActive e1 menuPath currentPath = isPathActive e2 menuPath currentPath"
  using assms unfolding isPathActive_def ticketBranch_def by auto

theorem isPathActive_depends_on_context_only_witness:
  "sessionStorage storedHintA \<noteq> sessionStorage storedHintB \<and>
   isPathActive storedHintA ''/all-tickets'' ''/ticket/55'' =
   isPathActive storedHintB ''/all-tickets'' ''/ticket/55''"
proof -
  have agree: "\<not> startsWith ''/ticket/55'' ''/ticket/'' \<or>
     (location_state_from storedHintA = location_state_from storedHintB \<and>
      document_referrer storedHintA = document_referrer storedHintB \<and>
      sessionStorage storedHintA ''ticket_detail_from'' =
        sessionStorage storedHintB ''ticket_detail_from'')"
    by (simp add: storedHintA_def storedHintB_def)
  have "sessionStorage storedHintA ''user_menus_cache'' \<noteq>
        sessionStorage storedHintB ''user_menus_cache''"
    by (simp add: storedHintA_def storedHintB_def)
  then have "sessionStorage storedHintA \<noteq> sessionStorage storedHintB"
    by metis
  with isPathActive_depends_on_context_only[OF agree, of "''/all-tickets''"]
  show ?thesis by simp
qed

text \<open>
  C2 as stated fails: with the same two arguments, the result changes with
  \<^verbatim>\<open>document.referrer\<close>, which is not an argument.
\<close>

theorem isPathActive_pure_counterexample:
  "isPathActive noHints ''/all-tickets'' ''/ticket/55'' \<noteq>
   isPathActive fromAllTickets ''/all-tickets'' ''/ticket/55''"
  by (simp add: isPathActive_def startsWith_def endsWith_def ticketBranch_def noHints_def
      fromAllTickets_def str_includes_def sublist_code suffix_to_prefix)

section \<open>MenuTree\<close>

lemma menuToGroup_items_nonempty_leaf:
  "\<not> hasChildren menu \<Longrightarrow> group_items (menuToGroup t g menu) = [convertMenuToMenuItem t g menu]"
  by (auto simp: menuToGroup_def hasChildren_def split: option.splits)

text \<open>
  C6. Every group that \<^verbatim>\<open>convertMenusToGroups\<close> produces has at least one item and
  comes from a top-level menu that is not hidden: a menu with children gives its
  children that are not hidden, a menu without children gives itself as the only item.
  A hidden top-level menu contributes nothing to the result, and a visible top-level
  menu without children always yields its singleton group.
\<close>

theorem convertMenusToGroups_nonempty_groups:
  "(\<forall>grp \<in> set (convertMenusToGroups t g menus).
      group_items grp \<noteq> [] \<and>
      (\<exists>menu \<in> set menus. \<not> menu_hidden menu \<and> group_id grp = menu_id menu \<and>
         group_title grp = getMenuTitle t menu \<and>
         (case menu_children menu of
            None \<Rightarrow> group_items grp = [convertMenuToMenuItem t g menu]
          | Some cs \<Rightarrow>
              if cs \<noteq> []
              then group_items grp =
                     map (convertMenuToMenuItem t g) (filter (\<lambda>child. \<not> menu_hidden child) cs)
              else group_items grp = [convertMenuToMenuItem t g menu])))
   \<and> (\<forall>xs m ys. menus = xs @ m # ys \<and> menu_hidden m \<longrightarrow>
         convertMenusToGroups t g menus = convertMenusToGroups t g (xs @ ys))
   \<and> (\<forall>menu \<in> set menus. \<not> menu_hidden menu \<and> \<not> hasChildren menu \<longrightarrow>
         (\<exists>grp \<in> set (convertMenusToGroups t g menus).
            group_id grp = menu_id menu \<and> group_items grp = [convertMenuToMenuItem t g menu]))"
proof (intro conjI ballI allI impI)
  fix grp assume "grp \<in> set (convertMenusToGroups t g menus)"
  then show "group_items grp \<noteq> []"
    by (auto simp: convertMenusToGroups_def)
next
  fix grp assume "grp \<in> set (convertMenusToGroups t g menus)"
  then obtain menu where m: "menu \<in> set menus" "\<not> menu_hidden menu" "grp = menuToGroup t g menu"
    by (auto simp: convertMenusToGroups_def)
  then show "\<exists>menu \<in> set menus. \<not> menu_hidden menu \<and> group_id grp = menu_id menu \<and>
         group_title grp = getMenuTitle t menu \<and>
         (case menu_children menu of
            None \<Rightarrow> group_items grp = [convertMenuToMenuItem t g menu]
          | Some cs \<Rightarrow>
              if cs \<noteq> []
              then group_items grp =
                     map (convertMenuToMenuItem t g) (filter (\<lambda>child. \<not> menu_hidden child) cs)
              else group_items grp = [convertMenuToMenuItem t g menu])"
    by (intro bexI[of _ menu]) (auto simp: menuToGroup_def split: option.splits)
next
  fix xs m ys assume "menus = xs @ m # ys \<and> menu_hidden m"
  then show "convertMenusToGroups t g menus = convertMenusToGroups t g (xs @ ys)"
    by (simp add: convertMenusToGroups_def)
next
  fix menu assume "menu \<in> set menus" "\<not> menu_hidden menu \<and> \<not> hasChildren menu"
  then have "menuToGroup t g menu \<in> set (convertMenusToGroups t g menus)"
    by (auto simp: convertMenusToGroups_def menuToGroup_items_nonempty_leaf)
  moreover have "group_id (menuToGroup t g menu) = menu_id menu"
    by (simp add: menuToGroup_def)
  moreover have "group_items (menuToGroup t g menu) = [convertMenuToMenuItem t g menu]"
    using \<open>\<not> menu_hidden menu \<and> \<not> hasChildren menu\<close> by (simp add: menuToGroup_items_nonempty_leaf)
  ultimately show "\<exists>grp \<in> set (convertMenusToGroups t g menus).
            group_id grp = menu_id menu \<and> group_items grp = [convertMenuToMenuItem t g menu]"
    by blast
qed

theorem convertMenusToGroups_nonempty_groups_witness:
  "list_all (\<lambda>grp. group_items grp \<noteq> [])
     (convertMenusToGroups noTranslation iconName sampleMenus) \<and>
   map group_id (convertMenusToGroups noTranslation iconName sampleMenus) =
     [''m-home'', ''m-assets''] \<and>
   (\<exists>grp \<in> set (convertMenusToGroups noTranslation iconName sampleMenus).
      group_id grp = ''m-home'' \<and>
      group_items grp = [convertMenuToMenuItem noTranslation iconName homeMenu])"
proof -
  have ids: "map group_id (convertMenusToGroups noTranslation iconName sampleMenus) =
     [''m-home'', ''m-assets'']"
    by (simp add: convertMenusToGroups_def sampleMenus_def homeMenu_def menuToGroup_def)
  have leaf: "homeMenu \<in> set sampleMenus" "\<not> menu_hidden homeMenu \<and> \<not> hasChildren homeMenu"
    by (simp_all add: sampleMenus_def homeMenu_def hasChildren_def)
  note groups = convertMenusToGroups_nonempty_groups[of noTranslation iconName sampleMenus]
  from groups[THEN conjunct1]
  have nonempty: "\<forall>grp \<in> set (convertMenusToGroups noTranslation iconName sampleMenus).
      group_items grp \<noteq> []"
    by blast
  from groups[THEN conjunct2, THEN conjunct2, THEN bspec, OF leaf(1)] leaf(2)
  have single: "\<exists>grp \<in> set (convertMenusToGroups noTranslation iconName sampleMenus).
      group_id grp = menu_id homeMenu \<and>
      group_items grp = [convertMenuToMenuItem noTranslation iconName homeMenu]"
    by (rule mp)
  have "menu_id homeMenu = ''m-home''"
    by (simp add: homeMenu_def)
  with nonempty single ids show ?thesis
    by (simp add: list_all_iff)
qed

section \<open>MenuCache\<close>

lemma fold_initialOpenState:
  "fold (\<lambda>menu acc. acc(menu_id menu \<mapsto> False)) menus acc =
     (\<lambda>k. if k \<in> menu_id ` set menus then Some False else acc k)"
  by (induction menus arbitrary: acc) (auto simp: fun_eq_iff)

lemma initialOpenState_eq:
  "initialOpenState menus = (\<lambda>k. if k \<in> menu_id ` set menus then Some False else None)"
  by (simp add: initialOpenState_def fold_initialOpenState)

lemma remoteFetch_calls:
  "\<exists>st'. remoteFetch rt st = Inr st' \<and> remoteCalls st' = remoteCalls st + 1"
  by (auto simp: remoteFetch_def Let_def staleFallback_def split: RemoteResult.splits option.splits sum.splits)

lemma readFreshCache_hit:
  assumes "\<not> getItemThrows rt" "st_storage st cacheKey = Some cm" "cm \<noteq> []"
    "st_storage st cacheTimestampKey = Some cts" "cts \<noteq> []" "parseInt rt cts = Some ts"
    "Date_now rt - ts < 10 * 60 * 1000" "JSON_parse rt cm = Some snapshot"
  shows "readFreshCache rt st = Inr (Some snapshot)"
  using assms by (simp add: readFreshCache_def getItem_def parseMenus_def cacheExpiry_def)

lemma readFreshCache_stale:
  assumes "st_storage st cacheTimestampKey = Some cts" "parseInt rt cts = Some ts"
    "Date_now rt - ts \<ge> 10 * 60 * 1000"
  shows "readFreshCache rt st = Inr None \<or> (\<exists>e. readFreshCache rt st = Inl e)"
  using assms by (auto simp: readFreshCache_def getItem_def cacheExpiry_def split: sum.splits option.splits)

text \<open>
  C3. When a snapshot is cached, it decodes, its timestamp is less than ten minutes old
  and \<open>forceRefresh\<close> is false, \<^verbatim>\<open>fetchMenus\<close> returns the snapshot and does not call
  \<^verbatim>\<open>getUserMenus\<close>. When \<open>forceRefresh\<close> is true, or the timestamp is ten minutes old
  or older, it calls \<^verbatim>\<open>getUserMenus\<close> exactly once.
\<close>

theorem fetchMenus_cache_freshness:
  "(\<not> forceRefresh \<and> \<not> getItemThrows rt \<and>
    st_storage st cacheKey = Some cm \<and> cm \<noteq> [] \<and> JSON_parse rt cm = Some snapshot \<and>
    st_storage st cacheTimestampKey = Some cts \<and> cts \<noteq> [] \<and> parseInt rt cts = Some ts \<and>
    Date_now rt - ts < 10 * 60 * 1000 \<longrightarrow>
      (\<exists>st'. fetchMenus rt forceRefresh st = Inr st' \<and> st_menus st' = snapshot \<and>
             remoteCalls st' = remoteCalls st))
   \<and>
   (forceRefresh \<or>
    (st_storage st cacheTimestampKey = Some cts \<and> parseInt rt cts = Some ts \<and>
     Date_now rt - ts \<ge> 10 * 60 * 1000) \<longrightarrow>
      (\<exists>st'. fetchMenus rt forceRefresh st = Inr st' \<and> remoteCalls st' = remoteCalls st + 1))"
proof (intro conjI impI)
  assume h: "\<not> forceRefresh \<and> \<not> getItemThrows rt \<and>
    st_storage st cacheKey = Some cm \<and> cm \<noteq> [] \<and> JSON_parse rt cm = Some snapshot \<and>
    st_storage st cacheTimestampKey = Some cts \<and> cts \<noteq> [] \<and> parseInt rt cts = Some ts \<and>
    Date_now rt - ts < 10 * 60 * 1000"
  then have "readFreshCache rt st = Inr (Some snapshot)"
    by (intro readFreshCache_hit[of rt st cm cts ts]) simp_all
  with h show "\<exists>st'. fetchMenus rt forceRefresh st = Inr st' \<and> st_menus st' = snapshot \<and>
             remoteCalls st' = remoteCalls st"
    by (simp add: fetchMenus_def)
next
  assume h: "forceRefresh \<or>
    (st_storage st cacheTimestampKey = Some cts \<and> parseInt rt cts = Some ts \<and>
     Date_now rt - ts \<ge> 10 * 60 * 1000)"
  then have "fetchMenus rt forceRefresh st = remoteFetch rt st"
  proof
    assume forceRefresh then show ?thesis by (simp add: fetchMenus_def)
  next
    assume "st_storage st cacheTimestampKey = Some cts \<and> parseInt rt cts = Some ts \<and>
     Date_now rt - ts \<ge> 10 * 60 * 1000"
    then have "readFreshCache rt st = Inr None \<or> (\<exists>e. readFreshCache rt st = Inl e)"
      by (intro readFreshCache_stale[of st cts rt ts]) simp_all
    then show ?thesis by (auto simp: fetchMenus_def)
  qed
  with remoteFetch_calls[of rt st]
  show "\<exists>st'. fetchMenus rt forceRefresh st = Inr st' \<and> remoteCalls st' = remoteCalls st + 1"
    by simp
qed

theorem fetchMenus_cache_freshness_witness:
  "map_sum id (\<lambda>st'. (st_menus st', remoteCalls st')) (fetchMenus failingRuntime False cachedState) =
     Inr ([homeMenu], 0) \<and>
   map_sum id remoteCalls (fetchMenus failingRuntime True cachedState) = Inr 1 \<and>
   map_sum id remoteCalls (fetchMenus lateRuntime False cachedState) = Inr 1"
proof -
  have fresh: "\<not> False \<and> \<not> getItemThrows failingRuntime \<and>
    st_storage cachedState cacheKey = Some ''[home]'' \<and> ''[home]'' \<noteq> [] \<and>
    JSON_parse failingRuntime ''[home]'' = Some [homeMenu] \<and>
    st_storage cachedState cacheTimestampKey = Some ''1000'' \<and> ''1000'' \<noteq> [] \<and>
    parseInt failingRuntime ''1000'' = Some 1000 \<and>
    Date_now failingRuntime - 1000 < 10 * 60 * 1000"
    by (simp add: failingRuntime_def cachedState_def cacheKey_def cacheTimestampKey_def)
  have late: "st_storage cachedState cacheTimestampKey = Some ''1000'' \<and>
    parseInt lateRuntime ''1000'' = Some 1000 \<and> Date_now lateRuntime - 1000 \<ge> 10 * 60 * 1000"
    by (simp add: lateRuntime_def failingRuntime_def cachedState_def cacheKey_def
        cacheTimestampKey_def)
  from fetchMenus_cache_freshness[of False failingRuntime cachedState "''[home]''" "[homeMenu]"
      "''1000''" 1000] fresh
  have a: "map_sum id (\<lambda>st'. (st_menus st', remoteCalls st'))
             (fetchMenus failingRuntime False cachedState) = Inr ([homeMenu], 0)"
    by (auto simp: cachedState_def)
  from fetchMenus_cache_freshness[of True failingRuntime cachedState "''[home]''" "[homeMenu]"
      "''1000''" 1000]
  have b: "map_sum id remoteCalls (fetchMenus failingRuntime True cachedState) = Inr 1"
    by (auto simp: cachedState_def)
  from fetchMenus_cache_freshness[of False lateRuntime cachedState "''[home]''" "[homeMenu]"
      "''1000''" 1000] late
  have c: "map_sum id remoteCalls (fetchMenus lateRuntime False cachedState) = Inr 1"
    by (auto simp: cachedState_def)
  from a b c show ?thesis by simp
qed

lemma fetchMenus_total: "\<exists>st'. fetchMenus rt forceRefresh st = Inr st'"
  using remoteFetch_calls[of rt st]
  by (auto simp: fetchMenus_def split: sum.splits option.splits)

lemma fetchMenus_calls:
  "fetchMenus rt forceRefresh st = Inr st' \<Longrightarrow> remoteCalls st' = remoteCalls st + 1 \<Longrightarrow>
   fetchMenus rt forceRefresh st = remoteFetch rt st"
  by (auto simp: fetchMenus_def split: sum.splits option.splits if_splits)



text \<open>
  C10. A load that yields a menu list, be it a fresh cache hit, a successful remote
  call or the stale cache after a failed remote call, replaces the expansion state by
  the map that sends every top-level menu id to false and has no other key.
\<close>

theorem fetchMenus_collapses_groups:
  assumes "fetchMenus rt forceRefresh st = Inr st'"
    and "(\<not> forceRefresh \<and> \<not> getItemThrows rt \<and>
          st_storage st cacheKey = Some cm \<and> cm \<noteq> [] \<and> JSON_parse rt cm = Some menus \<and>
          st_storage st cacheTimestampKey = Some cts \<and> cts \<noteq> [] \<and> parseInt rt cts = Some ts \<and>
          Date_now rt - ts < 10 * 60 * 1000)
       \<or> (remoteCalls st' = remoteCalls st + 1 \<and> getUserMenus rt = Resolved (Some menus))
       \<or> (remoteCalls st' = remoteCalls st + 1 \<and> getUserMenus rt = Rejected \<and>
          \<not> getItemThrows rt \<and> st_storage st cacheKey = Some cm \<and> cm \<noteq> [] \<and>
          JSON_parse rt cm = Some menus)"
  shows "st_menus st' = menus \<and>
         st_openGroups st' = (\<lambda>key. if key \<in> menu_id ` set menus then Some False else None)"
  using assms(2)
proof (elim disjE)
  assume h: "\<not> forceRefresh \<and> \<not> getItemThrows rt \<and>
          st_storage st cacheKey = Some cm \<and> cm \<noteq> [] \<and> JSON_parse rt cm = Some menus \<and>
          st_storage st cacheTimestampKey = Some cts \<and> cts \<noteq> [] \<and> parseInt rt cts = Some ts \<and>
          Date_now rt - ts < 10 * 60 * 1000"
  then have "readFreshCache rt st = Inr (Some menus)"
    by (intro readFreshCache_hit[of rt st cm cts ts]) simp_all
  with h assms(1) show ?thesis
    by (auto simp: fetchMenus_def initialOpenState_eq)
next
  assume h: "remoteCalls st' = remoteCalls st + 1 \<and> getUserMenus rt = Resolved (Some menus)"
  then have "remoteFetch rt st = Inr st'" using fetchMenus_calls[OF assms(1)] assms(1) by simp
  with h show ?thesis
    by (auto simp: remoteFetch_def Let_def initialOpenState_eq)
next
  assume h: "remoteCalls st' = remoteCalls st + 1 \<and> getUserMenus rt = Rejected \<and>
          \<not> getItemThrows rt \<and> st_storage st cacheKey = Some cm \<and> cm \<noteq> [] \<and>
          JSON_parse rt cm = Some menus"
  then have "remoteFetch rt st = Inr st'" using fetchMenus_calls[OF assms(1)] assms(1) by simp
  with h show ?thesis
    by (auto simp: remoteFetch_def Let_def staleFallback_def getItem_def parseMenus_def initialOpenState_eq)
qed

theorem fetchMenus_collapses_groups_witness:
  "map_sum id (\<lambda>st'. (st_openGroups st' ''m-home'', st_openGroups st' ''m-old''))
     (fetchMenus failingRuntime False cachedState) = Inr (Some False, None) \<and>
   st_openGroups cachedState ''m-home'' = Some True"
proof -
  obtain st' where st': "fetchMenus failingRuntime False cachedState = Inr st'"
    using fetchMenus_total by blast
  have fresh: "(\<not> False \<and> \<not> getItemThrows failingRuntime \<and>
    st_storage cachedState cacheKey = Some ''[home]'' \<and> ''[home]'' \<noteq> [] \<and>
    JSON_parse failingRuntime ''[home]'' = Some [homeMenu] \<and>
    st_storage cachedState cacheTimestampKey = Some ''1000'' \<and> ''1000'' \<noteq> [] \<and>
    parseInt failingRuntime ''1000'' = Some 1000 \<and>
    Date_now failingRuntime - 1000 < 10 * 60 * 1000)
    \<or> (remoteCalls st' = remoteCalls cachedState + 1 \<and>
        getUserMenus failingRuntime = Resolved (Some [homeMenu]))
    \<or> (remoteCalls st' = remoteCalls cachedState + 1 \<and> getUserMenus failingRuntime = Rejected \<and>
        \<not> getItemThrows failingRuntime \<and> st_storage cachedState cacheKey = Some ''[home]'' \<and>
        ''[home]'' \<noteq> [] \<and> JSON_parse failingRuntime ''[home]'' = Some [homeMenu])"
    by (simp add: failingRuntime_def cachedState_def cacheKey_def cacheTimestampKey_def)
  from fetchMenus_collapses_groups[OF st' fresh] st'
  show ?thesis
    by (simp add: homeMenu_def cachedState_def)
qed

section \<open>GroupExpansionTracker\<close>

lemma expandKey_apply: "expandKey k og key = (if key = k then Some True else og key)"
  by (simp add: expandKey_def)

lemma expandSubStep_eq:
  "expandSubStep env pathname grp item og =
     (if subGroupActive env pathname item then expandKey (subKey grp item) og else og)"
  by (simp add: expandSubStep_def subGroupActive_def split: option.splits)

lemma fold_expandGroupsStep:
  "fold (expandGroupsStep env pathname) gs og key =
     (if key \<in> group_id ` {grp \<in> set gs. hasActiveItem env pathname grp} then Some True else og key)"
  by (induction gs arbitrary: og) (auto simp: expandGroupsStep_def expandKey_apply)

lemma fold_expandSubStep:
  "fold (expandSubStep env pathname grp) items og key =
     (if key \<in> subKey grp ` {item \<in> set items. subGroupActive env pathname item}
      then Some True else og key)"
  by (induction items arbitrary: og) (auto simp: expandSubStep_eq expandKey_apply)

lemma fold_expandSub_groups:
  "fold (\<lambda>grp. fold (expandSubStep env pathname grp) (group_items grp)) gs og key =
     (if key \<in> (\<Union>grp \<in> set gs. subKey grp ` {item \<in> set (group_items grp). subGroupActive env pathname item})
      then Some True else og key)"
proof (induction gs arbitrary: og)
  case Nil
  then show ?case by simp
next
  case (Cons g gs)
  have "fold (\<lambda>grp. fold (expandSubStep env pathname grp) (group_items grp)) (g # gs) og key =
        fold (\<lambda>grp. fold (expandSubStep env pathname grp) (group_items grp)) gs
          (fold (expandSubStep env pathname g) (group_items g) og) key"
    by simp
  also have "\<dots> =
     (if key \<in> (\<Union>grp \<in> set gs. subKey grp ` {item \<in> set (group_items grp). subGroupActive env pathname item})
      then Some True else fold (expandSubStep env pathname g) (group_items g) og key)"
    by (rule Cons.IH)
  also have "\<dots> =
     (if key \<in> (\<Union>grp \<in> set (g # gs). subKey grp ` {item \<in> set (group_items grp). subGroupActive env pathname item})
      then Some True else og key)"
    by (simp add: fold_expandSubStep)
  finally show ?case .
qed

lemma expansionEffect_apply:
  "expansionEffect env pathname gs og key =
     (if key \<in> group_id ` {grp \<in> set gs. hasActiveItem env pathname grp} \<or>
         key \<in> (\<Union>grp \<in> set gs. subKey grp ` {item \<in> set (group_items grp). subGroupActive env pathname item})
      then Some True else og key)"
  by (simp add: expansionEffect_def fold_expandSub_groups fold_expandGroupsStep)

text \<open>
  C9. The expansion effect changes a key only by setting it to true, only when the key
  was not true already, and only when the key is the id of a group that has an active
  item or the key of a sub-group that has an active descendant. It never sets a key to
  false, and a key that is true stays true.
\<close>

theorem expansionEffect_only_expands:
  "(expansionEffect env pathname menuGroups og key \<noteq> og key \<longrightarrow>
      expansionEffect env pathname menuGroups og key = Some True \<and> og key \<noteq> Some True \<and>
      ((\<exists>grp \<in> set menuGroups. key = group_id grp \<and> hasActiveItem env pathname grp) \<or>
       (\<exists>grp \<in> set menuGroups. \<exists>item \<in> set (group_items grp). \<exists>cs.
           key = subKey grp item \<and> item_children item = Some cs \<and> cs \<noteq> [] \<and>
           hasActiveGrandchild env pathname cs)))
   \<and> (expansionEffect env pathname menuGroups og key = Some False \<longrightarrow> og key = Some False)
   \<and> (og key = Some True \<longrightarrow> expansionEffect env pathname menuGroups og key = Some True)"
proof -
  let ?res = "expansionEffect env pathname menuGroups og key"
  let ?just = "(\<exists>grp \<in> set menuGroups. key = group_id grp \<and> hasActiveItem env pathname grp) \<or>
       (\<exists>grp \<in> set menuGroups. \<exists>item \<in> set (group_items grp). \<exists>cs.
           key = subKey grp item \<and> item_children item = Some cs \<and> cs \<noteq> [] \<and>
           hasActiveGrandchild env pathname cs)"
  have changed: "?res = Some True \<and> og key \<noteq> Some True \<and> ?just" if ch: "?res \<noteq> og key"
  proof -
    from ch have k: "key \<in> group_id ` {grp \<in> set menuGroups. hasActiveItem env pathname grp} \<or>
         key \<in> (\<Union>grp \<in> set menuGroups.
                   subKey grp ` {item \<in> set (group_items grp). subGroupActive env pathname item})"
      unfolding expansionEffect_apply by (simp split: if_splits)
    then have t: "?res = Some True"
      unfolding expansionEffect_apply by simp
    have j: ?just
      using k
    proof
      assume "key \<in> group_id ` {grp \<in> set menuGroups. hasActiveItem env pathname grp}"
      then show ?thesis by blast
    next
      assume "key \<in> (\<Union>grp \<in> set menuGroups.
                   subKey grp ` {item \<in> set (group_items grp). subGroupActive env pathname item})"
      then obtain grp item where gi: "grp \<in> set menuGroups" "item \<in> set (group_items grp)"
          "subGroupActive env pathname item" "key = subKey grp item"
        by blast
      from gi(3) obtain cs where
        "item_children item = Some cs" "cs \<noteq> []" "hasActiveGrandchild env pathname cs"
        by (auto simp: subGroupActive_def split: option.splits)
      with gi show ?thesis by blast
    qed
    from ch t have "og key \<noteq> Some True" by simp
    with t j show ?thesis by simp
  qed
  have never_false: "og key = Some False" if "?res = Some False"
    using that unfolding expansionEffect_apply by (simp split: if_splits)
  have stays_open: "?res = Some True" if "og key = Some True"
    using that unfolding expansionEffect_apply by simp
  from changed never_false stays_open show ?thesis by blast
qed

theorem expansionEffect_only_expands_witness:
  "expansionEffect noHints ''/ticket/55'' ticketGroups ticketOpen ''m-tickets'' = Some True \<and>
   ticketOpen ''m-tickets'' = Some False \<and>
   hasActiveItem noHints ''/ticket/55'' (hd ticketGroups) \<and>
   expansionEffect noHints ''/ticket/55'' ticketGroups ticketOpen ''m-other'' = Some True"
proof -
  have act: "hasActiveItem noHints ''/ticket/55'' (hd ticketGroups)"
    by (simp add: hasActiveItem_def ticketGroups_def isPathActive_def startsWith_def
        endsWith_def ticketBranch_def noHints_def suffix_to_prefix)
  have og: "ticketOpen ''m-tickets'' = Some False" "ticketOpen ''m-other'' = Some True"
    by (simp_all add: ticketOpen_def)
  have ch: "expansionEffect noHints ''/ticket/55'' ticketGroups ticketOpen ''m-tickets'' \<noteq>
            ticketOpen ''m-tickets''"
    by (simp add: expansionEffect_def expandGroupsStep_def expandSubStep_def expandKey_def
        hasActiveItem_def ticketGroups_def ticketOpen_def isPathActive_def startsWith_def
        endsWith_def ticketBranch_def noHints_def suffix_to_prefix)
  from expansionEffect_only_expands[of noHints "''/ticket/55''" ticketGroups ticketOpen
      "''m-tickets''"] ch
  have a: "expansionEffect noHints ''/ticket/55'' ticketGroups ticketOpen ''m-tickets'' = Some True"
    by simp
  from expansionEffect_only_expands[of noHints "''/ticket/55''" ticketGroups ticketOpen
      "''m-other''"] og(2)
  have b: "expansionEffect noHints ''/ticket/55'' ticketGroups ticketOpen ''m-other'' = Some True"
    by simp
  from a b act og show ?thesis by simp
qed

section \<open>TabSynchronizer: distinct paths are preserved\<close>














lemma wf_prevPath: "tabs (s\<lparr>prevPathRef := p\<rparr>) = tabs s"
  by simp









section \<open>TabSynchronizer: what one reconciliation establishes\<close>

lemma ofPath_simps [simp]:
  "ofPath p [] = []"
  "ofPath p (x # xs) = (if tab_path x = p then x # ofPath p xs else ofPath p xs)"
  "ofPath p (xs @ ys) = ofPath p xs @ ofPath p ys"
  by (simp_all add: ofPath_def)





lemma ofPath_other_filter [simp]:
  "p \<noteq> q \<Longrightarrow> ofPath p (filter (\<lambda>tab. tab_path tab \<noteq> q) xs) = ofPath p xs"
  by (induction xs) auto

lemma ofPath_same_filter [simp]:
  "ofPath q (filter (\<lambda>tab. tab_path tab \<noteq> q) xs) = []"
  by (induction xs) auto






lemma menuWithCorrectTitle_path [simp]: "menu_path (menuWithCorrectTitle menu ct) = menu_path menu"
  by (cases menu) simp

lemma menuWithCorrectTitle_title [simp]: "menuMetaTitle (menuWithCorrectTitle menu ct) = ct"
  by (cases menu) (simp add: menuMetaTitle_def split: option.splits)










lemma setClosable_fields [simp]:
  "tab_path (setClosable c menus tab) = tab_path tab"
  "tab_id (setClosable c menus tab) = tab_id tab"
  "tab_title (setClosable c menus tab) = tab_title tab"
  by (simp_all add: setClosable_def split: option.splits)













lemma okTab_title [simp]: "okTab P c menus (tb\<lparr>tab_title := ttl\<rparr>) = okTab P c menus tb"
  by (simp add: okTab_def keyedTab_def goodTab_def)






section \<open>TabSynchronizer: one tab per path, idempotence\<close>







end
